theory Spec2Isabelle
  imports Main
begin

section \<open>Entity store\<close>

text \<open>
  The entities of the map component (\<^verbatim>\<open>Map.svelte\<close>) and of the page that owns the lists.
  Ids are JavaScript numbers holding database keys, modelled as \<^typ>\<open>int\<close>; a field
  typed \<^verbatim>\<open>number | null\<close> is an \<^typ>\<open>int option\<close>. A park's geometry is guarded
  by \<^verbatim>\<open>if (park.geometry)\<close> wherever it is used (the column is nullable), so it is an
  option over an uninterpreted geometry type. Only the fields that the modelled functions read are
  kept (names, descriptions, photos and coordinates are dropped).
\<close>

record district =
  district_id :: int

record 'g park =
  park_id :: int
  districtId :: "int option"
  geometry :: "'g option"

record facility =
  facility_id :: int
  ftype :: string
  parkId :: int
  contractTerm :: "string option"

record 'g store =
  districts :: "district list"
  parks :: "'g park list"
  facilities :: "facility list"

subsection \<open>JavaScript truthiness of ids\<close>

text \<open>
  \<^verbatim>\<open>park.districtId && ...\<close> and \<^verbatim>\<open>!park.districtId\<close> test truthiness: \<^verbatim>\<open>null\<close> and
  the number \<^verbatim>\<open>0\<close> are falsy, every other id is truthy. \<^verbatim>\<open>set.has(x)\<close> is false for
  \<^verbatim>\<open>null\<close>.
\<close>

definition truthy_num :: "int \<Rightarrow> bool" where
  "truthy_num n = (n \<noteq> 0)"

definition truthy :: "int option \<Rightarrow> bool" where
  "truthy x = (case x of None \<Rightarrow> False | Some n \<Rightarrow> truthy_num n)"

definition has :: "int set \<Rightarrow> int option \<Rightarrow> bool" where
  "has S x = (case x of None \<Rightarrow> False | Some n \<Rightarrow> n \<in> S)"

section \<open>Filter state\<close>

record filter_state =
  selectedDistricts :: "int set"
  selectedParks :: "int set"
  selectedFacilityTypes :: "string set"
  filtersInitialized :: bool

definition initial_filters :: filter_state where
  "initial_filters =
     \<lparr>selectedDistricts = {}, selectedParks = {}, selectedFacilityTypes = {},
      filtersInitialized = False\<rparr>"

text \<open>
  \<^verbatim>\<open>xs.forEach((x) => { if (!s.has(k x)) s.add(k x) })\<close>: the loop of the auto-select
  branch of the filter effect.
\<close>

fun add_missing :: "('a \<Rightarrow> 'k) \<Rightarrow> 'a list \<Rightarrow> 'k set \<Rightarrow> 'k set" where
  "add_missing k [] s = s"
| "add_missing k (x # xs) s = add_missing k xs (if k x \<notin> s then insert (k x) s else s)"

text \<open>
  The \<^verbatim>\<open>$effect\<close> that initialises the filters and keeps new items selected. The keys of
  \<^verbatim>\<open>FACILITY_TYPES\<close> (module \<^verbatim>\<open>$lib/constants\<close>) are the parameter \<open>ftypes\<close>.
\<close>

definition filters_effect :: "string list \<Rightarrow> 'g store \<Rightarrow> filter_state \<Rightarrow> filter_state" where
  "filters_effect ftypes s st =
     (if \<not> filtersInitialized st then
        st\<lparr>selectedDistricts := set (map district_id (districts s)),
           selectedParks := set (map park_id (parks s)),
           selectedFacilityTypes := set ftypes,
           filtersInitialized := True\<rparr>
      else
        st\<lparr>selectedDistricts := add_missing district_id (districts s) (selectedDistricts st),
           selectedParks := add_missing park_id (parks s) (selectedParks st),
           selectedFacilityTypes := add_missing (\<lambda>t. t) ftypes (selectedFacilityTypes st)\<rparr>)"

definition toggle :: "'k \<Rightarrow> 'k set \<Rightarrow> 'k set" where
  "toggle k s = (if k \<in> s then s - {k} else insert k s)"

definition toggleDistrict :: "int \<Rightarrow> filter_state \<Rightarrow> filter_state" where
  "toggleDistrict i st = st\<lparr>selectedDistricts := toggle i (selectedDistricts st)\<rparr>"

definition togglePark :: "int \<Rightarrow> filter_state \<Rightarrow> filter_state" where
  "togglePark i st = st\<lparr>selectedParks := toggle i (selectedParks st)\<rparr>"

definition toggleFacilityType :: "string \<Rightarrow> filter_state \<Rightarrow> filter_state" where
  "toggleFacilityType t st = st\<lparr>selectedFacilityTypes := toggle t (selectedFacilityTypes st)\<rparr>"

definition selectAllDistricts :: "district list \<Rightarrow> filter_state \<Rightarrow> filter_state" where
  "selectAllDistricts ds st = st\<lparr>selectedDistricts := set (map district_id ds)\<rparr>"

definition deselectAllDistricts :: "filter_state \<Rightarrow> filter_state" where
  "deselectAllDistricts st = st\<lparr>selectedDistricts := {}\<rparr>"

definition selectAllParks :: "'g park list \<Rightarrow> filter_state \<Rightarrow> filter_state" where
  "selectAllParks ps st =
     (let parksToSelect =
            filter (\<lambda>park. \<not> truthy (districtId park)
                          \<or> has (selectedDistricts st) (districtId park)) ps
      in st\<lparr>selectedParks := set (map park_id parksToSelect)\<rparr>)"

definition deselectAllParks :: "'g park list \<Rightarrow> filter_state \<Rightarrow> filter_state" where
  "deselectAllParks ps st =
     (let parksToKeep =
            filter (\<lambda>park. truthy (districtId park)
                          \<and> \<not> has (selectedDistricts st) (districtId park)) ps
      in st\<lparr>selectedParks := set (map park_id parksToKeep)\<rparr>)"

definition selectAllFacilityTypes :: "string list \<Rightarrow> filter_state \<Rightarrow> filter_state" where
  "selectAllFacilityTypes ftypes st = st\<lparr>selectedFacilityTypes := set ftypes\<rparr>"

definition deselectAllFacilityTypes :: "filter_state \<Rightarrow> filter_state" where
  "deselectAllFacilityTypes st = st\<lparr>selectedFacilityTypes := {}\<rparr>"

section \<open>Map renderer\<close>

text \<open>
  \<^verbatim>\<open>loadParks\<close> walks the park list and adds one layer to \<^verbatim>\<open>drawnItems\<close> for every
  park that passes its three guards; the result is the list of parks that received a layer, in
  list order. The early \<^verbatim>\<open>return\<close> on an empty list adds nothing.
\<close>

definition park_layer :: "filter_state \<Rightarrow> 'g park \<Rightarrow> bool" where
  "park_layer st park =
     (if park_id park \<notin> selectedParks st then False
      else if truthy (districtId park) \<and> \<not> has (selectedDistricts st) (districtId park)
        then False
      else if geometry park \<noteq> None then True
      else False)"

definition loadParks :: "'g park list \<Rightarrow> filter_state \<Rightarrow> 'g park list" where
  "loadParks ps st = (if ps = [] then [] else filter (park_layer st) ps)"

text \<open>\<^verbatim>\<open>parks.find((p) => p.id === i)\<close>: the first park with that id.\<close>

definition find_park :: "'g park list \<Rightarrow> int \<Rightarrow> 'g park option" where
  "find_park ps i = List.find (\<lambda>p. park_id p = i) ps"

text \<open>
  \<^verbatim>\<open>loadFacilities\<close> clears the marker cluster and adds one marker for every facility that
  passes the three filters. A facility's \<^verbatim>\<open>parkId\<close> is typed \<^verbatim>\<open>number\<close>; a missing one
  reaches the guard \<^verbatim>\<open>facility.parkId && ...\<close> as a falsy value, which \<open>0\<close> stands for.
\<close>

definition facility_marker :: "'g park list \<Rightarrow> filter_state \<Rightarrow> facility \<Rightarrow> bool" where
  "facility_marker ps st f =
     (if ftype f \<notin> selectedFacilityTypes st then False
      else if truthy_num (parkId f) \<and> parkId f \<notin> selectedParks st then False
      else (case find_park ps (parkId f) of
              Some park \<Rightarrow>
                if truthy (districtId park) \<and> \<not> has (selectedDistricts st) (districtId park)
                then False else True
            | None \<Rightarrow> True))"

definition loadFacilities :: "'g store \<Rightarrow> filter_state \<Rightarrow> facility list" where
  "loadFacilities s st =
     (if facilities s = [] then [] else filter (facility_marker (parks s) st) (facilities s))"

section \<open>The map component as a transition system\<close>

text \<open>
  What can happen to the map component between two renders: the parent replaces the bound
  lists (\<open>PropsChange\<close>), the filter effect runs, or the user presses a control of the
  filter panel. A state is the current store together with the filter state.
\<close>

datatype 'g map_action =
    PropsChange "'g store"
  | RunEffect
  | ToggleDistrict int
  | TogglePark int
  | ToggleFacilityType string
  | SelectAllDistricts
  | DeselectAllDistricts
  | SelectAllParks
  | DeselectAllParks
  | SelectAllFacilityTypes
  | DeselectAllFacilityTypes

fun map_step :: "string list \<Rightarrow> 'g map_action \<Rightarrow> 'g store \<times> filter_state \<Rightarrow> 'g store \<times> filter_state"
  where
  "map_step ftypes (PropsChange s') (s, st) = (s', st)"
| "map_step ftypes RunEffect (s, st) = (s, filters_effect ftypes s st)"
| "map_step ftypes (ToggleDistrict i) (s, st) = (s, toggleDistrict i st)"
| "map_step ftypes (TogglePark i) (s, st) = (s, togglePark i st)"
| "map_step ftypes (ToggleFacilityType t) (s, st) = (s, toggleFacilityType t st)"
| "map_step ftypes SelectAllDistricts (s, st) = (s, selectAllDistricts (districts s) st)"
| "map_step ftypes DeselectAllDistricts (s, st) = (s, deselectAllDistricts st)"
| "map_step ftypes SelectAllParks (s, st) = (s, selectAllParks (parks s) st)"
| "map_step ftypes DeselectAllParks (s, st) = (s, deselectAllParks (parks s) st)"
| "map_step ftypes SelectAllFacilityTypes (s, st) = (s, selectAllFacilityTypes ftypes st)"
| "map_step ftypes DeselectAllFacilityTypes (s, st) = (s, deselectAllFacilityTypes st)"

fun map_run :: "string list \<Rightarrow> 'g map_action list \<Rightarrow> 'g store \<times> filter_state \<Rightarrow> 'g store \<times> filter_state"
  where
  "map_run ftypes [] c = c"
| "map_run ftypes (a # as) c = map_run ftypes as (map_step ftypes a c)"



section \<open>Facility popup: the contract term line\<close>

text \<open>
  The regular expression \<^verbatim>\<open>/\[(\d{4}-\d{2}-\d{2}),(\d{4}-\d{2}-\d{2})\)/\<close> is a sequence of
  single-character atoms, a digit class or a literal. \<^verbatim>\<open>String.prototype.match\<close> with a
  regular expression that is neither anchored nor global returns the leftmost occurrence with
  its two groups, or null.
\<close>

datatype atom = Digit | Lit char

fun atom_ok :: "atom \<Rightarrow> char \<Rightarrow> bool" where
  "atom_ok Digit c = (c \<in> set ''0123456789'')"
| "atom_ok (Lit l) c = (c = l)"

fun match_here :: "atom list \<Rightarrow> string \<Rightarrow> bool" where
  "match_here [] s = True"
| "match_here (a # as) [] = False"
| "match_here (a # as) (c # cs) = (atom_ok a c \<and> match_here as cs)"

definition date_atoms :: "atom list" where
  "date_atoms = [Digit, Digit, Digit, Digit, Lit CHR ''-'', Digit, Digit, Lit CHR ''-'', Digit, Digit]"

definition term_regex :: "atom list" where
  "term_regex = [Lit CHR ''[''] @ date_atoms @ [Lit CHR '',''] @ date_atoms @ [Lit CHR '')'']"

fun regex_match :: "string \<Rightarrow> (string \<times> string) option" where
  "regex_match [] = None"
| "regex_match (c # cs) =
     (if match_here term_regex (c # cs) then Some (take 10 cs, take 10 (drop 11 cs))
      else regex_match cs)"


text \<open>
  The shapes the format \<^verbatim>\<open>[YYYY-MM-DD,YYYY-MM-DD)\<close> describes: a date string, the interval
  string of two dates, and a string that is such an interval from its first to its last character.
\<close>

definition date_shape :: "string \<Rightarrow> bool" where
  "date_shape d = (length d = 10 \<and> match_here date_atoms d)"

definition interval_string :: "string \<Rightarrow> string \<Rightarrow> string" where
  "interval_string d1 d2 = ''['' @ d1 @ '','' @ d2 @ '')''"



section \<open>Interaction mode controller\<close>

text \<open>
  The three mode flags of the map component, the active polygon draw handler, and the number of
  one-shot \<^verbatim>\<open>click\<close> listeners on the map. The removal of transient drawing layers in
  \<^verbatim>\<open>cancelAllModes\<close> touches none of these and is left out.
\<close>

datatype draw_handler = Polygon_handler

record mode_state =
  isDrawingDistrict :: bool
  isDrawingPark :: bool
  isPlacingFacility :: bool
  activeDrawHandler :: "draw_handler option"
  clickListeners :: nat

definition initial_mode :: mode_state where
  "initial_mode =
     \<lparr>isDrawingDistrict = False, isDrawingPark = False, isPlacingFacility = False,
      activeDrawHandler = None, clickListeners = 0\<rparr>"

text \<open>The callbacks the component invokes: the creation events.\<close>

datatype ('g, 'c) creation = DistrictCreate 'g | ParkCreate 'g | FacilityCreate 'c 'c

text \<open>
  \<open>throws\<close> tells whether \<^verbatim>\<open>activeDrawHandler.disable()\<close> raises; the handler variable is
  then left as it is, and the rest of the function runs all the same.
\<close>

definition cancelAllModes :: "bool \<Rightarrow> mode_state \<Rightarrow> mode_state" where
  "cancelAllModes throws st =
     st\<lparr>activeDrawHandler :=
          (if activeDrawHandler st \<noteq> None \<and> \<not> throws then None else activeDrawHandler st),
        clickListeners := 0,
        isDrawingDistrict := False,
        isDrawingPark := False,
        isPlacingFacility := False\<rparr>"

definition startDrawingDistrict :: "bool \<Rightarrow> mode_state \<Rightarrow> mode_state" where
  "startDrawingDistrict throws st =
     (cancelAllModes throws st)\<lparr>isDrawingDistrict := True,
                                activeDrawHandler := Some Polygon_handler\<rparr>"

definition startDrawingPark :: "bool \<Rightarrow> mode_state \<Rightarrow> mode_state" where
  "startDrawingPark throws st =
     (cancelAllModes throws st)\<lparr>isDrawingPark := True,
                                activeDrawHandler := Some Polygon_handler\<rparr>"

definition startPlacingFacility :: "bool \<Rightarrow> mode_state \<Rightarrow> mode_state" where
  "startPlacingFacility throws st =
     (let st' = cancelAllModes throws st
      in st'\<lparr>isPlacingFacility := True, clickListeners := Suc (clickListeners st')\<rparr>)"

text \<open>The listener for \<^verbatim>\<open>L.Draw.Event.CREATED\<close> installed by \<^verbatim>\<open>setupDrawControls\<close>.\<close>

definition onDrawCreated :: "string \<Rightarrow> 'g \<Rightarrow> mode_state \<Rightarrow> mode_state \<times> ('g, 'c) creation list"
  where
  "onDrawCreated layerType g st =
     (if layerType = ''polygon'' then
        if isDrawingDistrict st then
          (st\<lparr>isDrawingDistrict := False, activeDrawHandler := None\<rparr>, [DistrictCreate g])
        else if isDrawingPark st then
          (st\<lparr>isDrawingPark := False, activeDrawHandler := None\<rparr>, [ParkCreate g])
        else (st, [])
      else (st, []))"

text \<open>
  A click on the map runs every one-shot listener that \<^verbatim>\<open>startPlacingFacility\<close> registered
  and removes it.
\<close>

definition onMapClick :: "'c \<Rightarrow> 'c \<Rightarrow> mode_state \<Rightarrow> mode_state \<times> ('g, 'c) creation list" where
  "onMapClick lat lng st =
     (if clickListeners st = 0 then (st, [])
      else (st\<lparr>isPlacingFacility := False, activeDrawHandler := None, clickListeners := 0\<rparr>,
            replicate (clickListeners st) (FacilityCreate lat lng)))"

datatype ('g, 'c) ui_event =
    StartDrawingDistrict bool
  | StartDrawingPark bool
  | StartPlacingFacility bool
  | CancelAllModes bool
  | DrawCreated string 'g
  | MapClick 'c 'c

fun step :: "('g, 'c) ui_event \<Rightarrow> mode_state \<Rightarrow> mode_state \<times> ('g, 'c) creation list" where
  "step (StartDrawingDistrict t) st = (startDrawingDistrict t st, [])"
| "step (StartDrawingPark t) st = (startDrawingPark t st, [])"
| "step (StartPlacingFacility t) st = (startPlacingFacility t st, [])"
| "step (CancelAllModes t) st = (cancelAllModes t st, [])"
| "step (DrawCreated layerType g) st = onDrawCreated layerType g st"
| "step (MapClick lat lng) st = onMapClick lat lng st"

fun run :: "('g, 'c) ui_event list \<Rightarrow> mode_state \<Rightarrow> mode_state \<times> ('g, 'c) creation list" where
  "run [] st = (st, [])"
| "run (e # es) st =
     (let (st1, out1) = step e st; (st2, out2) = run es st1 in (st2, out1 @ out2))"

datatype mode = DrawingDistrict | DrawingPark | PlacingFacility

fun start :: "mode \<Rightarrow> bool \<Rightarrow> mode_state \<Rightarrow> mode_state" where
  "start DrawingDistrict = startDrawingDistrict"
| "start DrawingPark = startDrawingPark"
| "start PlacingFacility = startPlacingFacility"

fun flag :: "mode \<Rightarrow> mode_state \<Rightarrow> bool" where
  "flag DrawingDistrict = isDrawingDistrict"
| "flag DrawingPark = isDrawingPark"
| "flag PlacingFacility = isPlacingFacility"

fun starts :: "mode \<Rightarrow> ('g, 'c) ui_event \<Rightarrow> bool" where
  "starts DrawingDistrict (StartDrawingDistrict t) = True"
| "starts DrawingPark (StartDrawingPark t) = True"
| "starts PlacingFacility (StartPlacingFacility t) = True"
| "starts _ _ = False"

fun creates :: "mode \<Rightarrow> ('g, 'c) creation \<Rightarrow> bool" where
  "creates DrawingDistrict (DistrictCreate g) = True"
| "creates DrawingPark (ParkCreate g) = True"
| "creates PlacingFacility (FacilityCreate lat lng) = True"
| "creates _ _ = False"

definition at_most_one :: "mode_state \<Rightarrow> bool" where
  "at_most_one st =
     (\<not> (isDrawingDistrict st \<and> isDrawingPark st)
      \<and> \<not> (isDrawingDistrict st \<and> isPlacingFacility st)
      \<and> \<not> (isDrawingPark st \<and> isPlacingFacility st))"

text \<open>
  A mode is dormant in a state from which it can emit no creation event: its flag is down or,
  for facility placement, no click listener is registered.
\<close>

fun dormant :: "mode \<Rightarrow> mode_state \<Rightarrow> bool" where
  "dormant DrawingDistrict st = (\<not> isDrawingDistrict st)"
| "dormant DrawingPark st = (\<not> isDrawingPark st)"
| "dormant PlacingFacility st = (clickListeners st = 0)"

section \<open>Facility form\<close>

text \<open>\<^verbatim>\<open>String(n)\<close> for an integer id: its decimal numeral.\<close>

fun nat_digits :: "nat \<Rightarrow> string" where
  "nat_digits n =
     (if n < 10 then [char_of (48 + n)]
      else nat_digits (n div 10) @ [char_of (48 + n mod 10)])"

declare nat_digits.simps [simp del]

definition String_of_int :: "int \<Rightarrow> string" where
  "String_of_int i = (if i < 0 then CHR ''-'' # nat_digits (nat (- i)) else nat_digits (nat i))"

text \<open>
  \<^verbatim>\<open>detectedPark\<close> returns the first park of the list whose polygon contains the placement
  point. \<open>contains g\<close> is the outcome of
  \<^verbatim>\<open>turf.booleanPointInPolygon(point, turf.polygon(g.coordinates))\<close> for the form's point:
  \<open>None\<close> when turf throws (the park is then skipped).
\<close>

fun detectedPark :: "('g \<Rightarrow> bool option) \<Rightarrow> 'g park list \<Rightarrow> 'g park option" where
  "detectedPark contains [] = None"
| "detectedPark contains (park # ps) =
     (case geometry park of
        None \<Rightarrow> detectedPark contains ps
      | Some g \<Rightarrow>
          (case contains g of
             Some True \<Rightarrow> Some park
           | _ \<Rightarrow> detectedPark contains ps))"

definition park_contains :: "('g \<Rightarrow> bool option) \<Rightarrow> 'g park \<Rightarrow> bool" where
  "park_contains contains park =
     (case geometry park of None \<Rightarrow> False | Some g \<Rightarrow> contains g = Some True)"

record facility_form =
  form_name :: string
  form_parkId :: string
  form_error :: string
  form_loading :: bool

definition empty_form :: facility_form where
  "empty_form = \<lparr>form_name = [], form_parkId = [], form_error = [], form_loading = False\<rparr>"

text \<open>The effect that initialises \<^verbatim>\<open>parkId\<close>; the first argument is the edited facility, if any.\<close>

definition parkId_effect :: "facility option \<Rightarrow> 'g park option \<Rightarrow> facility_form \<Rightarrow> facility_form"
  where
  "parkId_effect fac detected fm =
     (case fac of
        Some f \<Rightarrow>
          if truthy_num (parkId f) then fm\<lparr>form_parkId := String_of_int (parkId f)\<rparr> else fm
      | None \<Rightarrow>
          (case detected of
             Some park \<Rightarrow>
               if form_parkId fm = [] then fm\<lparr>form_parkId := String_of_int (park_id park)\<rparr>
               else fm
           | None \<Rightarrow> fm))"

text \<open>
  \<^verbatim>\<open>handleSubmit\<close> up to the point where it starts its requests: \<open>Rejected\<close> is an early
  return, \<open>Proceeds\<close> is entering the \<^verbatim>\<open>try\<close> block that uploads the photo and sends the
  facility.
\<close>

datatype submit = Rejected facility_form | Proceeds facility_form

definition handleSubmit :: "facility_form \<Rightarrow> submit" where
  "handleSubmit fm =
     (let fm1 = fm\<lparr>form_error := []\<rparr>
      in if form_name fm1 = [] then Rejected (fm1\<lparr>form_error := ''Name is required''\<rparr>)
         else if form_parkId fm1 = []
           then Rejected (fm1\<lparr>form_error := ''Park selection is required''\<rparr>)
         else Proceeds (fm1\<lparr>form_loading := True\<rparr>))"

section \<open>Deleting parks and districts on the page\<close>

text \<open>
  The outcome of \<^verbatim>\<open>fetch\<close>: a response with \<^verbatim>\<open>ok\<close>, a response without, or an exception.
  Each handler returns the new lists and whether it raised an alert.
\<close>

datatype response = Ok | NotOk | NetworkError

definition handleDistrictDelete :: "bool \<Rightarrow> response \<Rightarrow> int \<Rightarrow> 'g store \<Rightarrow> 'g store \<times> bool" where
  "handleDistrictDelete confirmed resp i s =
     (if \<not> confirmed then (s, False)
      else (case resp of
              Ok \<Rightarrow> (s\<lparr>districts := filter (\<lambda>d. district_id d \<noteq> i) (districts s)\<rparr>, False)
            | NotOk \<Rightarrow> (s, True)
            | NetworkError \<Rightarrow> (s, True)))"

definition handleParkDelete :: "bool \<Rightarrow> response \<Rightarrow> int \<Rightarrow> 'g store \<Rightarrow> 'g store \<times> bool" where
  "handleParkDelete confirmed resp i s =
     (if \<not> confirmed then (s, False)
      else (case resp of
              Ok \<Rightarrow> (s\<lparr>parks := filter (\<lambda>p. park_id p \<noteq> i) (parks s),
                       facilities := filter (\<lambda>f. parkId f \<noteq> i) (facilities s)\<rparr>, False)
            | NotOk \<Rightarrow> (s, True)
            | NetworkError \<Rightarrow> (s, True)))"

section \<open>Session cookie\<close>

type_synonym cookies = "string \<rightharpoonup> string"

definition SESSION_COOKIE_NAME :: string where
  "SESSION_COOKIE_NAME = ''admin_session''"

text \<open>\<open>sessionToken\<close> is the value of \<^verbatim>\<open>crypto.randomUUID()\<close>; it is stored nowhere else.\<close>

definition createSession :: "string \<Rightarrow> cookies \<Rightarrow> cookies" where
  "createSession sessionToken c = c(SESSION_COOKIE_NAME \<mapsto> sessionToken)"

definition destroySession :: "cookies \<Rightarrow> cookies" where
  "destroySession c = c(SESSION_COOKIE_NAME := None)"

definition isAuthenticated :: "cookies \<Rightarrow> bool" where
  "isAuthenticated c =
     (case c SESSION_COOKIE_NAME of None \<Rightarrow> False | Some session \<Rightarrow> session \<noteq> [])"

section \<open>What the select-all and deselect-all handlers assign\<close>

lemma selectAllParks_selected:
  "selectedParks (selectAllParks ps st) =
     park_id ` {p \<in> set ps. \<not> truthy (districtId p) \<or> has (selectedDistricts st) (districtId p)}"
  by (simp add: selectAllParks_def)

lemma deselectAllParks_selected:
  "selectedParks (deselectAllParks ps st) =
     park_id ` {p \<in> set ps. truthy (districtId p) \<and> \<not> has (selectedDistricts st) (districtId p)}"
  by (simp add: deselectAllParks_def)

section \<open>Which parks get a layer\<close>

text \<open>
  Claim C2, counterexample. A selected park without a district and without a geometry is in the
  store and satisfies the stated condition, yet the guard \<^verbatim>\<open>if (park.geometry)\<close> of
  loadParks adds no layer for it.
\<close>

theorem loadParks_counterexample:
  "park_id \<lparr>park_id = 1, districtId = None, geometry = None :: unit option\<rparr>
     \<in> selectedParks (initial_filters\<lparr>selectedParks := {1}\<rparr>)
   \<and> districtId \<lparr>park_id = 1, districtId = None, geometry = None :: unit option\<rparr> = None
   \<and> loadParks [\<lparr>park_id = 1, districtId = None, geometry = None :: unit option\<rparr>]
        (initial_filters\<lparr>selectedParks := {1}\<rparr>) = []"
  by (simp add: loadParks_def park_layer_def initial_filters_def)

text \<open>
  Claim C2, as amended. The park-rendering pass draws a layer for a park of the store if and only
  if the park's id is selected, the park has no districtId (\<^verbatim>\<open>!park.districtId\<close>: null or 0)
  or its districtId is selected, and the park has a geometry.
\<close>

theorem loadParks_layer_iff:
  "p \<in> set (loadParks ps st) \<longleftrightarrow>
     p \<in> set ps \<and> park_id p \<in> selectedParks st
     \<and> (\<not> truthy (districtId p) \<or> has (selectedDistricts st) (districtId p))
     \<and> geometry p \<noteq> None"
  by (auto simp: loadParks_def park_layer_def)

theorem loadParks_layer_iff_witness:
  "\<lparr>park_id = 1, districtId = Some 10, geometry = Some ()\<rparr>
     \<in> set (loadParks [\<lparr>park_id = 1, districtId = Some 10, geometry = Some ()\<rparr>,
                       \<lparr>park_id = 2, districtId = Some 20, geometry = Some ()\<rparr>]
               (initial_filters\<lparr>selectedDistricts := {10}, selectedParks := {1, 2}\<rparr>))
   \<and> \<lparr>park_id = 2, districtId = Some 20, geometry = Some ()\<rparr>
     \<notin> set (loadParks [\<lparr>park_id = 1, districtId = Some 10, geometry = Some ()\<rparr>,
                       \<lparr>park_id = 2, districtId = Some 20, geometry = Some ()\<rparr>]
               (initial_filters\<lparr>selectedDistricts := {10}, selectedParks := {1, 2}\<rparr>))"
  (is "?p1 \<in> set (loadParks ?ps ?st) \<and> ?p2 \<notin> set (loadParks ?ps ?st)")
proof -
  have "?p1 \<in> set (loadParks ?ps ?st)"
    unfolding loadParks_layer_iff [of ?p1 ?ps ?st]
    by (simp add: truthy_def truthy_num_def has_def initial_filters_def)
  moreover have "?p2 \<notin> set (loadParks ?ps ?st)"
    unfolding loadParks_layer_iff [of ?p2 ?ps ?st]
    by (simp add: truthy_def truthy_num_def has_def initial_filters_def)
  ultimately show ?thesis by blast
qed


lemma find_park_Some: "find_park ps i = Some p \<Longrightarrow> p \<in> set ps \<and> park_id p = i"
  by (auto simp: find_park_def find_Some_iff)

lemma find_park_distinct:
  "distinct (map park_id ps) \<Longrightarrow> p \<in> set ps \<Longrightarrow> find_park ps (park_id p) = Some p"
  by (induction ps) (auto simp: find_park_def)

lemma find_park_None: "find_park ps i = None \<longleftrightarrow> i \<notin> park_id ` set ps"
  by (auto simp: find_park_def find_None_iff)

section \<open>Which facilities get a marker\<close>

text \<open>
  Claim C3. The facility-rendering pass adds a marker for a facility of the store if and only if
  the facility's type is selected and its park, if any, is visible under the park and district
  selections: the facility's parkId, if it has one (\<^verbatim>\<open>facility.parkId\<close> truthy), is selected,
  and the district of the park that \<^verbatim>\<open>parks.find\<close> returns for it, if that park exists and has
  a districtId, is selected. With distinct park ids the park that is found is the park of the
  store with the facility's parkId.
\<close>

theorem loadFacilities_marker_iff:
  "(f \<in> set (loadFacilities s st) \<longleftrightarrow>
      f \<in> set (facilities s) \<and> ftype f \<in> selectedFacilityTypes st
      \<and> (truthy_num (parkId f) \<longrightarrow> parkId f \<in> selectedParks st)
      \<and> (\<forall>park. find_park (parks s) (parkId f) = Some park \<longrightarrow>
            \<not> truthy (districtId park) \<or> has (selectedDistricts st) (districtId park)))
   \<and> (distinct (map park_id (parks s)) \<longrightarrow>
        (f \<in> set (loadFacilities s st) \<longleftrightarrow>
           f \<in> set (facilities s) \<and> ftype f \<in> selectedFacilityTypes st
           \<and> (truthy_num (parkId f) \<longrightarrow> parkId f \<in> selectedParks st)
           \<and> (\<forall>park \<in> set (parks s). park_id park = parkId f \<longrightarrow>
                 \<not> truthy (districtId park) \<or> has (selectedDistricts st) (districtId park))))"
proof -
  have a: "f \<in> set (loadFacilities s st) \<longleftrightarrow>
      f \<in> set (facilities s) \<and> ftype f \<in> selectedFacilityTypes st
      \<and> (truthy_num (parkId f) \<longrightarrow> parkId f \<in> selectedParks st)
      \<and> (\<forall>park. find_park (parks s) (parkId f) = Some park \<longrightarrow>
            \<not> truthy (districtId park) \<or> has (selectedDistricts st) (districtId park))"
    by (auto simp: loadFacilities_def facility_marker_def split: option.splits)
  have b: "(\<forall>park. find_park (parks s) (parkId f) = Some park \<longrightarrow>
            \<not> truthy (districtId park) \<or> has (selectedDistricts st) (districtId park))
        \<longleftrightarrow> (\<forall>park \<in> set (parks s). park_id park = parkId f \<longrightarrow>
                 \<not> truthy (districtId park) \<or> has (selectedDistricts st) (districtId park))"
    if d: "distinct (map park_id (parks s))"
    using find_park_Some find_park_distinct [OF d] by metis
  from a b show ?thesis by blast
qed

text \<open>Two toilets in two parks, the district of the second park deselected.\<close>

theorem loadFacilities_marker_iff_witness:
  "\<lparr>facility_id = 1, ftype = ''TOILET'', parkId = 1, contractTerm = None\<rparr>
     \<in> set (loadFacilities
         \<lparr>districts = [\<lparr>district_id = 10\<rparr>, \<lparr>district_id = 20\<rparr>],
          parks = [\<lparr>park_id = 1, districtId = Some 10, geometry = Some ()\<rparr>,
                   \<lparr>park_id = 2, districtId = Some 20, geometry = Some ()\<rparr>],
          facilities = [\<lparr>facility_id = 1, ftype = ''TOILET'', parkId = 1, contractTerm = None\<rparr>,
                        \<lparr>facility_id = 2, ftype = ''TOILET'', parkId = 2, contractTerm = None\<rparr>]\<rparr>
         \<lparr>selectedDistricts = {10}, selectedParks = {1, 2},
          selectedFacilityTypes = {''TOILET''}, filtersInitialized = True\<rparr>)
   \<and> \<lparr>facility_id = 2, ftype = ''TOILET'', parkId = 2, contractTerm = None\<rparr>
     \<notin> set (loadFacilities
         \<lparr>districts = [\<lparr>district_id = 10\<rparr>, \<lparr>district_id = 20\<rparr>],
          parks = [\<lparr>park_id = 1, districtId = Some 10, geometry = Some ()\<rparr>,
                   \<lparr>park_id = 2, districtId = Some 20, geometry = Some ()\<rparr>],
          facilities = [\<lparr>facility_id = 1, ftype = ''TOILET'', parkId = 1, contractTerm = None\<rparr>,
                        \<lparr>facility_id = 2, ftype = ''TOILET'', parkId = 2, contractTerm = None\<rparr>]\<rparr>
         \<lparr>selectedDistricts = {10}, selectedParks = {1, 2},
          selectedFacilityTypes = {''TOILET''}, filtersInitialized = True\<rparr>)"
  (is "?f1 \<in> set (loadFacilities ?s ?st) \<and> ?f2 \<notin> set (loadFacilities ?s ?st)")
proof -
  have d: "distinct (map park_id (parks ?s))" by simp
  have "?f1 \<in> set (loadFacilities ?s ?st)"
    using loadFacilities_marker_iff [of ?f1 ?s ?st, THEN conjunct2, rule_format, OF d]
    by (simp add: truthy_def truthy_num_def has_def)
  moreover have "?f2 \<notin> set (loadFacilities ?s ?st)"
    using loadFacilities_marker_iff [of ?f2 ?s ?st, THEN conjunct2, rule_format, OF d]
    by (simp add: truthy_def truthy_num_def has_def)
  ultimately show ?thesis by blast
qed

section \<open>Deleting a park cascades, deleting a district does not\<close>

text \<open>
  Claim C7. A confirmed park deletion that the server accepts removes from the lists the parks
  with that id (with distinct ids: exactly that one park) and the facilities whose parkId equals
  it, all other facilities and the districts staying as they are, in order; a confirmed and
  accepted district deletion removes the districts with that id and leaves the parks, also those
  of that district, and the facilities as they are.
\<close>

theorem handleParkDelete_cascade:
  "parks (fst (handleParkDelete True Ok i s)) = filter (\<lambda>p. park_id p \<noteq> i) (parks s)
   \<and> facilities (fst (handleParkDelete True Ok i s)) = filter (\<lambda>f. parkId f \<noteq> i) (facilities s)
   \<and> districts (fst (handleParkDelete True Ok i s)) = districts s
   \<and> (\<forall>p. distinct (map park_id (parks s)) \<and> p \<in> set (parks s) \<and> park_id p = i \<longrightarrow>
         parks (fst (handleParkDelete True Ok i s)) = remove1 p (parks s))
   \<and> districts (fst (handleDistrictDelete True Ok j s)) = filter (\<lambda>d. district_id d \<noteq> j) (districts s)
   \<and> parks (fst (handleDistrictDelete True Ok j s)) = parks s
   \<and> facilities (fst (handleDistrictDelete True Ok j s)) = facilities s"
proof -
  have r: "filter (\<lambda>q. park_id q \<noteq> park_id p) ps = remove1 p ps"
    if "distinct (map park_id ps)" "p \<in> set ps" for p :: "'a park" and ps
    using that 
  proof (induction ps)
    case Nil then show ?case by simp
  next
    case (Cons q ps)
    show ?case
    proof (cases "q = p")
      case True
      with Cons.prems have "\<forall>x \<in> set ps. park_id x \<noteq> park_id p"
        by (metis distinct.simps(2) imageI list.simps(9) list.set_map)
      then have "filter (\<lambda>q. park_id q \<noteq> park_id p) ps = ps" by (simp add: filter_id_conv)
      with True show ?thesis by simp
    next
      case False
      with Cons show ?thesis by auto
    qed
  qed
  show ?thesis
    by (auto simp: handleParkDelete_def handleDistrictDelete_def r)
qed

text \<open>Deleting park 1, and deleting district 10, from a store where both parks are in district 10.\<close>

theorem handleParkDelete_cascade_witness:
  "parks (fst (handleParkDelete True Ok 1
      \<lparr>districts = [\<lparr>district_id = 10\<rparr>],
       parks = [\<lparr>park_id = 1, districtId = Some 10, geometry = Some ()\<rparr>,
                \<lparr>park_id = 2, districtId = Some 10, geometry = Some ()\<rparr>],
       facilities = [\<lparr>facility_id = 1, ftype = ''TOILET'', parkId = 1, contractTerm = None\<rparr>,
                     \<lparr>facility_id = 2, ftype = ''TOILET'', parkId = 2, contractTerm = None\<rparr>]\<rparr>))
     = [\<lparr>park_id = 2, districtId = Some 10, geometry = Some ()\<rparr>]
   \<and> facilities (fst (handleParkDelete True Ok 1
      \<lparr>districts = [\<lparr>district_id = 10\<rparr>],
       parks = [\<lparr>park_id = 1, districtId = Some 10, geometry = Some ()\<rparr>,
                \<lparr>park_id = 2, districtId = Some 10, geometry = Some ()\<rparr>],
       facilities = [\<lparr>facility_id = 1, ftype = ''TOILET'', parkId = 1, contractTerm = None\<rparr>,
                     \<lparr>facility_id = 2, ftype = ''TOILET'', parkId = 2, contractTerm = None\<rparr>]\<rparr>))
     = [\<lparr>facility_id = 2, ftype = ''TOILET'', parkId = 2, contractTerm = None\<rparr>]
   \<and> parks (fst (handleDistrictDelete True Ok 10
      \<lparr>districts = [\<lparr>district_id = 10\<rparr>],
       parks = [\<lparr>park_id = 1, districtId = Some 10, geometry = Some ()\<rparr>,
                \<lparr>park_id = 2, districtId = Some 10, geometry = Some ()\<rparr>],
       facilities = [\<lparr>facility_id = 1, ftype = ''TOILET'', parkId = 1, contractTerm = None\<rparr>,
                     \<lparr>facility_id = 2, ftype = ''TOILET'', parkId = 2, contractTerm = None\<rparr>]\<rparr>))
     = [\<lparr>park_id = 1, districtId = Some 10, geometry = Some ()\<rparr>,
        \<lparr>park_id = 2, districtId = Some 10, geometry = Some ()\<rparr>]
   \<and> districts (fst (handleDistrictDelete True Ok 10
      \<lparr>districts = [\<lparr>district_id = 10\<rparr>],
       parks = [\<lparr>park_id = 1, districtId = Some 10, geometry = Some ()\<rparr>,
                \<lparr>park_id = 2, districtId = Some 10, geometry = Some ()\<rparr>],
       facilities = [\<lparr>facility_id = 1, ftype = ''TOILET'', parkId = 1, contractTerm = None\<rparr>,
                     \<lparr>facility_id = 2, ftype = ''TOILET'', parkId = 2, contractTerm = None\<rparr>]\<rparr>))
     = []"
  (is "parks (fst (handleParkDelete True Ok 1 ?s)) = [?p2] \<and> _ \<and> _ \<and> _")
proof -
  let ?p1 = "\<lparr>park_id = 1, districtId = Some 10, geometry = Some ()\<rparr>"
  note t = handleParkDelete_cascade [of 1 ?s 10]
  have "distinct (map park_id (parks ?s)) \<and> ?p1 \<in> set (parks ?s) \<and> park_id ?p1 = 1" by simp
  with t have "parks (fst (handleParkDelete True Ok 1 ?s)) = remove1 ?p1 (parks ?s)" by blast
  then have "parks (fst (handleParkDelete True Ok 1 ?s)) = [?p2]" by simp
  moreover from t have "facilities (fst (handleParkDelete True Ok 1 ?s))
      = filter (\<lambda>f. parkId f \<noteq> 1) (facilities ?s)" by blast
  moreover from t have "parks (fst (handleDistrictDelete True Ok 10 ?s)) = parks ?s" by blast
  moreover from t have "districts (fst (handleDistrictDelete True Ok 10 ?s))
      = filter (\<lambda>d. district_id d \<noteq> 10) (districts ?s)" by blast
  ultimately show ?thesis by simp
qed

section \<open>The authentication check\<close>

text \<open>
  Claim C10. \<^verbatim>\<open>isAuthenticated\<close> is true if and only if the cookie \<^verbatim>\<open>admin_session\<close> is present with a
  value that is not empty. The value is compared with nothing: any non-empty value passes,
  whatever token \<^verbatim>\<open>createSession\<close> had issued, and a destroyed session does not pass.
\<close>

theorem isAuthenticated_nonempty_cookie:
  "(isAuthenticated c \<longleftrightarrow> (\<exists>v. c ''admin_session'' = Some v \<and> v \<noteq> []))
   \<and> (v \<noteq> [] \<longrightarrow> isAuthenticated (c(''admin_session'' \<mapsto> v)))
   \<and> (v \<noteq> [] \<longrightarrow> isAuthenticated ((createSession token c)(''admin_session'' \<mapsto> v)))
   \<and> \<not> isAuthenticated (destroySession c)"
  by (auto simp: isAuthenticated_def createSession_def destroySession_def SESSION_COOKIE_NAME_def
      split: option.splits)


text \<open>A value other than the issued token passes; an empty value and a missing cookie do not.\<close>

theorem isAuthenticated_nonempty_cookie_witness:
  "isAuthenticated ((createSession ''4f0c2a9e-token'' Map.empty)(''admin_session'' \<mapsto> ''x''))
   \<and> \<not> isAuthenticated (Map.empty(''admin_session'' \<mapsto> []))
   \<and> \<not> isAuthenticated Map.empty"
proof -
  note t = isAuthenticated_nonempty_cookie
  have "isAuthenticated ((createSession ''4f0c2a9e-token'' Map.empty)(''admin_session'' \<mapsto> ''x''))"
    using t [where c = Map.empty and v = "''x''" and token = "''4f0c2a9e-token''"] by simp
  moreover have "\<not> isAuthenticated (Map.empty(''admin_session'' \<mapsto> []))"
    using t [where c = "Map.empty(''admin_session'' \<mapsto> [])"] by simp
  moreover have "\<not> isAuthenticated Map.empty"
    using t [where c = Map.empty] by simp
  ultimately show ?thesis by blast
qed

section \<open>Switching interaction modes\<close>


lemmas mode_defs = cancelAllModes_def startDrawingDistrict_def startDrawingPark_def
  startPlacingFacility_def onDrawCreated_def onMapClick_def

lemma start_flag: "flag m' (start m t st) \<longleftrightarrow> m' = m"
  by (cases m; cases m') (simp_all add: mode_defs Let_def)

lemma start_dormant: "m' \<noteq> m \<Longrightarrow> dormant m' (start m t st)"
  by (cases m; cases m') (simp_all add: mode_defs Let_def)

lemma step_at_most_one: "at_most_one st \<Longrightarrow> at_most_one (fst (step e st))"
  by (cases e) (simp_all add: mode_defs at_most_one_def Let_def)

lemma start_at_most_one: "at_most_one (start m t st)"
  by (cases m) (simp_all add: mode_defs at_most_one_def Let_def)


lemma run_at_most_one: "at_most_one st \<Longrightarrow> at_most_one (fst (run es st))"
proof (induction es arbitrary: st)
  case Nil
  then show ?case by simp
next
  case (Cons e es)
  from Cons.prems have "at_most_one (fst (step e st))" by (rule step_at_most_one)
  then have "at_most_one (fst (run es (fst (step e st))))" by (rule Cons.IH)
  then show ?case by (simp add: split_beta)
qed

lemma step_dormant:
  assumes "dormant m st" and "\<not> starts m e"
  shows "dormant m (fst (step e st)) \<and> (\<forall>c \<in> set (snd (step e st)). \<not> creates m c)"
proof (cases e)
  case (StartDrawingDistrict t)
  with assms show ?thesis by (cases m) (simp_all add: mode_defs)
next
  case (StartDrawingPark t)
  with assms show ?thesis by (cases m) (simp_all add: mode_defs)
next
  case (StartPlacingFacility t)
  with assms show ?thesis by (cases m) (simp_all add: mode_defs Let_def)
next
  case (CancelAllModes t)
  with assms show ?thesis by (cases m) (simp_all add: mode_defs)
next
  case (DrawCreated layerType g)
  with assms show ?thesis by (cases m) (simp_all add: mode_defs)
next
  case (MapClick lat lng)
  with assms show ?thesis by (cases m) (simp_all add: mode_defs)
qed


lemma run_dormant:
  "dormant m st \<Longrightarrow> \<forall>e \<in> set es. \<not> starts m e \<Longrightarrow>
     dormant m (fst (run es st)) \<and> (\<forall>c \<in> set (snd (run es st)). \<not> creates m c)"
proof (induction es arbitrary: st)
  case Nil
  then show ?case by simp
next
  case (Cons e es)
  from Cons.prems have e: "\<not> starts m e" and es: "\<forall>e \<in> set es. \<not> starts m e" by simp_all
  from step_dormant [OF Cons.prems(1) e]
  have d: "dormant m (fst (step e st))" and q: "\<forall>c \<in> set (snd (step e st)). \<not> creates m c"
    by simp_all
  from Cons.IH [OF d es]
  have d': "dormant m (fst (run es (fst (step e st))))"
    and q': "\<forall>c \<in> set (snd (run es (fst (step e st)))). \<not> creates m c" by simp_all
  have "fst (run (e # es) st) = fst (run es (fst (step e st)))"
    and "snd (run (e # es) st) = snd (step e st) @ snd (run es (fst (step e st)))"
    by (simp_all add: split_beta)
  with d' q q' show ?case by auto
qed

text \<open>
  Claim C4. Starting a mode, from any state, leaves exactly the flag of that mode set. From then
  on, whatever events follow (completed draws, map clicks, cancellations, starts of other
  modes), the component emits no creation event of another mode until that mode is started
  again: a district draw discarded by starting a park draw never yields a district creation.
  At most one of the three flags is set in the initial state, after every run from a state with
  at most one flag set, and after every run that follows a start.
\<close>

theorem start_cancels_active_mode:
  "(\<forall>m'. flag m' (start m t st) = (m' = m))
   \<and> (\<forall>m'. m' \<noteq> m \<longrightarrow> (\<forall>e \<in> set es. \<not> starts m' e) \<longrightarrow>
         (\<forall>c \<in> set (snd (run es (start m t st))). \<not> creates m' c))
   \<and> at_most_one initial_mode
   \<and> (at_most_one st \<longrightarrow> at_most_one (fst (run es st)))
   \<and> at_most_one (fst (run es (start m t st)))"
proof -
  have a: "\<forall>m'. flag m' (start m t st) = (m' = m)" by (simp add: start_flag)
  have b: "\<forall>c \<in> set (snd (run es (start m t st))). \<not> creates m' c"
    if "m' \<noteq> m" and "\<forall>e \<in> set es. \<not> starts m' e" for m'
    using run_dormant [OF start_dormant [OF that(1)] that(2)] by (rule conjunct2)
  have c: "at_most_one initial_mode" by (simp add: at_most_one_def initial_mode_def)
  have d: "at_most_one (fst (run es (start m t st)))"
    by (rule run_at_most_one [OF start_at_most_one])
  have e: "at_most_one st \<longrightarrow> at_most_one (fst (run es st))"
    using run_at_most_one by (rule impI)
  from b have b': "\<forall>m'. m' \<noteq> m \<longrightarrow> (\<forall>e \<in> set es. \<not> starts m' e) \<longrightarrow>
         (\<forall>c \<in> set (snd (run es (start m t st))). \<not> creates m' c)" by (intro allI impI)
  from a b' c e d show ?thesis by (intro conjI)
qed


text \<open>A park draw started over a district draw, then a completed polygon and a map click.\<close>

theorem start_cancels_active_mode_witness:
  "flag DrawingPark (start DrawingPark False (start DrawingDistrict False initial_mode))
   \<and> \<not> flag DrawingDistrict (start DrawingPark False (start DrawingDistrict False initial_mode))
   \<and> DistrictCreate (7::nat)
       \<notin> set (snd (run [DrawCreated ''polygon'' 7, MapClick (1::nat) 2]
                     (start DrawingPark False (start DrawingDistrict False initial_mode))))
   \<and> at_most_one (fst (run [DrawCreated ''polygon'' (7::nat), MapClick (1::nat) 2]
                     (start DrawingPark False (start DrawingDistrict False initial_mode))))"
proof -
  let ?dd = "start DrawingDistrict False initial_mode"
  let ?st = "start DrawingPark False ?dd"
  let ?es = "[DrawCreated ''polygon'' 7, MapClick 1 2] :: (nat, nat) ui_event list"
  note t = start_cancels_active_mode [of DrawingPark False ?dd ?es]
  from t have f: "\<forall>m'. flag m' ?st = (m' = DrawingPark)" by (rule conjunct1)
  have f1: "flag DrawingPark ?st" using f [rule_format, of DrawingPark] by simp
  have f2: "\<not> flag DrawingDistrict ?st" using f [rule_format, of DrawingDistrict] by simp
  have q: "\<forall>e \<in> set ?es. \<not> starts DrawingDistrict e" by simp
  from t have "\<forall>m'. m' \<noteq> DrawingPark \<longrightarrow> (\<forall>e \<in> set ?es. \<not> starts m' e) \<longrightarrow>
         (\<forall>c \<in> set (snd (run ?es ?st)). \<not> creates m' c)"
    by (rule conjunct2 [THEN conjunct1])
  with q have n: "\<forall>c \<in> set (snd (run ?es ?st)). \<not> creates DrawingDistrict c" by simp
  have g: "DistrictCreate 7 \<notin> set (snd (run ?es ?st))"
  proof
    assume "DistrictCreate 7 \<in> set (snd (run ?es ?st))"
    with n have "\<not> creates DrawingDistrict (DistrictCreate 7 :: (nat, nat) creation)" by (rule bspec)
    then show False by simp
  qed
  from t have h: "at_most_one (fst (run ?es ?st))" by (rule conjunct2 [THEN conjunct2, THEN conjunct2, THEN conjunct2])
  from f1 f2 g h show ?thesis by (intro conjI)
qed


section \<open>Facility form: detected park and submission\<close>

lemma nat_digits_nonempty: "nat_digits n \<noteq> []"
  by (subst nat_digits.simps) simp

lemma String_of_int_nonempty: "String_of_int i \<noteq> []"
  by (simp add: String_of_int_def nat_digits_nonempty)

lemma detectedPark_find: "detectedPark c ps = List.find (park_contains c) ps"
  by (induction ps) (auto simp: park_contains_def split: option.splits bool.splits)

lemma detectedPark_only:
  assumes "p \<in> set ps" and "park_contains c p"
    and "\<forall>q \<in> set ps. park_contains c q \<longrightarrow> q = p"
  shows "detectedPark c ps = Some p"
proof -
  from assms(1,2) have "List.find (park_contains c) ps \<noteq> None"
    by (auto simp: find_None_iff)
  then obtain q where q: "List.find (park_contains c) ps = Some q" by blast
  then have "q \<in> set ps" and "park_contains c q"
    by (auto simp: find_Some_iff)
  with assms(3) have "q = p" by blast
  with q show ?thesis by (simp add: detectedPark_find)
qed

lemma detectedPark_outside:
  "\<forall>q \<in> set ps. \<not> park_contains c q \<Longrightarrow> detectedPark c ps = None"
  by (simp add: detectedPark_find find_None_iff)

text \<open>
  Claim C5. In create mode: when exactly one park of the list contains the placement point, the
  freshly mounted form gets that park's id as its parkId; when no park contains it, the effect
  changes nothing and the parkId of the fresh form stays empty. A submission with an empty
  parkId is rejected with an error message before any request is made, and once a park id is
  chosen (and a name given) the submission goes on to its requests.
\<close>

theorem facility_form_park_detection:
  "(p \<in> set ps \<and> park_contains c p \<and> (\<forall>q \<in> set ps. park_contains c q \<longrightarrow> q = p) \<longrightarrow>
      form_parkId (parkId_effect None (detectedPark c ps) empty_form) = String_of_int (park_id p))
   \<and> ((\<forall>q \<in> set ps. \<not> park_contains c q) \<longrightarrow>
        parkId_effect None (detectedPark c ps) fm = fm
        \<and> form_parkId (parkId_effect None (detectedPark c ps) empty_form) = [])
   \<and> (form_parkId fm = [] \<longrightarrow>
        (\<exists>fm'. handleSubmit fm = Rejected fm' \<and> form_error fm' \<noteq> []))
   \<and> (form_name fm \<noteq> [] \<longrightarrow>
        (\<exists>fm'. handleSubmit (fm\<lparr>form_parkId := String_of_int i\<rparr>) = Proceeds fm'))"
proof -
  have a: "form_parkId (parkId_effect None (detectedPark c ps) empty_form) = String_of_int (park_id p)"
    if "p \<in> set ps" "park_contains c p" "\<forall>q \<in> set ps. park_contains c q \<longrightarrow> q = p"
    using detectedPark_only [OF that] by (simp add: parkId_effect_def empty_form_def)
  have b: "parkId_effect None (detectedPark c ps) fm = fm
        \<and> form_parkId (parkId_effect None (detectedPark c ps) empty_form) = []"
    if "\<forall>q \<in> set ps. \<not> park_contains c q"
    using detectedPark_outside [OF that] by (simp add: parkId_effect_def empty_form_def)
  have c: "\<exists>fm'. handleSubmit fm = Rejected fm' \<and> form_error fm' \<noteq> []"
    if "form_parkId fm = []"
    using that by (simp add: handleSubmit_def Let_def)
  have d: "\<exists>fm'. handleSubmit (fm\<lparr>form_parkId := String_of_int i\<rparr>) = Proceeds fm'"
    if "form_name fm \<noteq> []"
    using that by (simp add: handleSubmit_def Let_def String_of_int_nonempty)
  from a b c d show ?thesis by blast
qed

text \<open>
  Four parks: one without geometry, one that does not contain the point, one whose geometry
  makes turf throw, and park 7 that contains it.
\<close>

theorem facility_form_park_detection_witness:
  "form_parkId (parkId_effect None
      (detectedPark (\<lambda>g. if g = (1::nat) then Some True else if g = 2 then Some False else None)
         [\<lparr>park_id = 4, districtId = None, geometry = None\<rparr>,
          \<lparr>park_id = 5, districtId = None, geometry = Some 2\<rparr>,
          \<lparr>park_id = 6, districtId = None, geometry = Some 3\<rparr>,
          \<lparr>park_id = 7, districtId = None, geometry = Some 1\<rparr>])
      empty_form) = String_of_int 7
   \<and> form_parkId (parkId_effect None
      (detectedPark (\<lambda>g. if g = (1::nat) then Some True else if g = 2 then Some False else None)
         [\<lparr>park_id = 5, districtId = None, geometry = Some 2\<rparr>])
      empty_form) = []
   \<and> (\<exists>fm'. handleSubmit (empty_form\<lparr>form_name := ''Kiosk''\<rparr>) = Rejected fm'
              \<and> form_error fm' \<noteq> [])
   \<and> (\<exists>fm'. handleSubmit (empty_form\<lparr>form_name := ''Kiosk'', form_parkId := String_of_int 5\<rparr>)
              = Proceeds fm')"
proof -
  let ?c = "\<lambda>g. if g = (1::nat) then Some True else if g = 2 then Some False else None"
  let ?p = "\<lparr>park_id = 7, districtId = None, geometry = Some (1::nat)\<rparr>"
  let ?ps = "[\<lparr>park_id = 4, districtId = None, geometry = None\<rparr>,
          \<lparr>park_id = 5, districtId = None, geometry = Some 2\<rparr>,
          \<lparr>park_id = 6, districtId = None, geometry = Some 3\<rparr>, ?p]"
  let ?qs = "[\<lparr>park_id = 5, districtId = None, geometry = Some (2::nat)\<rparr>]"
  let ?fm = "empty_form\<lparr>form_name := ''Kiosk''\<rparr>"
  have h1: "?p \<in> set ?ps \<and> park_contains ?c ?p
            \<and> (\<forall>q \<in> set ?ps. park_contains ?c q \<longrightarrow> q = ?p)"
    by (simp add: park_contains_def)
  have h2: "\<forall>q \<in> set ?qs. \<not> park_contains ?c q" by (simp add: park_contains_def)
  have h3: "form_parkId ?fm = []" by (simp add: empty_form_def)
  have h4: "form_name ?fm \<noteq> []" by simp
  from facility_form_park_detection [of ?p ?ps ?c] h1
  have "form_parkId (parkId_effect None (detectedPark ?c ?ps) empty_form)
          = String_of_int (park_id ?p)" by blast
  then have r1: "form_parkId (parkId_effect None (detectedPark ?c ?ps) empty_form)
          = String_of_int 7" by simp
  from facility_form_park_detection [of _ ?qs ?c] h2
  have r2: "form_parkId (parkId_effect None (detectedPark ?c ?qs) empty_form) = []" by blast
  from facility_form_park_detection [of _ _ _ ?fm] h3
  have r3: "\<exists>fm'. handleSubmit ?fm = Rejected fm' \<and> form_error fm' \<noteq> []" by blast
  from facility_form_park_detection [of _ _ _ ?fm 5] h4
  have "\<exists>fm'. handleSubmit (?fm\<lparr>form_parkId := String_of_int 5\<rparr>) = Proceeds fm'" by blast
  then have r4: "\<exists>fm'. handleSubmit (empty_form\<lparr>form_name := ''Kiosk'', form_parkId := String_of_int 5\<rparr>)
              = Proceeds fm'" by simp
  from r1 r2 r3 r4 show ?thesis by (intro conjI)
qed


section \<open>The contract term line of the popup\<close>

lemma match_here_append:
  "match_here (as @ bs) s \<longleftrightarrow>
     (\<exists>u v. s = u @ v \<and> length u = length as \<and> match_here as u \<and> match_here bs v)"
proof (induction as arbitrary: s)
  case Nil
  then show ?case by simp
next
  case (Cons a as)
  show ?case
  proof (cases s)
    case Nil
    then show ?thesis by simp
  next
    case (Cons c cs)
    show ?thesis
    proof
      assume "match_here ((a # as) @ bs) s"
      with Cons have ok: "atom_ok a c" and "match_here (as @ bs) cs" by simp_all
      with Cons.IH obtain u v where "cs = u @ v" "length u = length as"
        "match_here as u" "match_here bs v" by blast
      with ok Cons have "s = (c # u) @ v \<and> length (c # u) = length (a # as)
          \<and> match_here (a # as) (c # u) \<and> match_here bs v" by simp
      then show "\<exists>u v. s = u @ v \<and> length u = length (a # as)
          \<and> match_here (a # as) u \<and> match_here bs v" by blast
    next
      assume "\<exists>u v. s = u @ v \<and> length u = length (a # as)
          \<and> match_here (a # as) u \<and> match_here bs v"
      then obtain u v where s: "s = u @ v" and l: "length u = length (a # as)"
        and m: "match_here (a # as) u" "match_here bs v" by blast
      from l obtain x xs where u: "u = x # xs" by (cases u) simp_all
      with s Cons have "c = x" "cs = xs @ v" by simp_all
      moreover from u l m have "atom_ok a x" "length xs = length as" "match_here as xs" by simp_all
      ultimately have "atom_ok a c" "match_here (as @ bs) cs"
        using Cons.IH m(2) by blast+
      with Cons show "match_here ((a # as) @ bs) s" by simp
    qed
  qed
qed

lemma match_here_Lit: "match_here [Lit l] s \<longleftrightarrow> (\<exists>rest. s = l # rest)"
  by (cases s) auto

lemma match_here_Lit_exact: "length u = 1 \<Longrightarrow> match_here [Lit l] u \<longleftrightarrow> u = [l]"
  by (cases u) auto

lemma length_date_atoms: "length date_atoms = 10"
  by (simp add: date_atoms_def)

lemma match_term_regex:
  "match_here term_regex s \<longleftrightarrow>
     (\<exists>d1 d2 rest. s = interval_string d1 d2 @ rest \<and> date_shape d1 \<and> date_shape d2)"
  (is "?L \<longleftrightarrow> ?R")
proof
  assume ?L
  then obtain u1 v1 where 1: "s = u1 @ v1" "length u1 = 1" "match_here [Lit CHR ''[''] u1"
    and m1: "match_here (date_atoms @ [Lit CHR '',''] @ date_atoms @ [Lit CHR '')'']) v1"
    unfolding term_regex_def match_here_append [of "[Lit CHR ''['']"] by auto
  from m1 obtain d1 v2 where 2: "v1 = d1 @ v2" "length d1 = 10" "match_here date_atoms d1"
    and m2: "match_here ([Lit CHR '',''] @ date_atoms @ [Lit CHR '')'']) v2"
    unfolding match_here_append [of date_atoms] length_date_atoms by auto
  from m2 obtain u3 v3 where 3: "v2 = u3 @ v3" "length u3 = 1" "match_here [Lit CHR '',''] u3"
    and m3: "match_here (date_atoms @ [Lit CHR '')'']) v3"
    unfolding match_here_append [of "[Lit CHR '','']"] by auto
  from m3 obtain d2 v4 where 4: "v3 = d2 @ v4" "length d2 = 10" "match_here date_atoms d2"
    and m4: "match_here [Lit CHR '')''] v4"
    unfolding match_here_append [of date_atoms] length_date_atoms by auto
  from m4 obtain rest where 5: "v4 = CHR '')'' # rest" by (auto simp: match_here_Lit)
  from 1 have u1: "u1 = ''[''" by (simp add: match_here_Lit_exact)
  from 3 have u3: "u3 = '',''" by (simp add: match_here_Lit_exact)
  have "s = interval_string d1 d2 @ rest"
    by (simp add: 1 2 3 4 5 u1 u3 interval_string_def)
  moreover have "date_shape d1" "date_shape d2" using 2 4 by (simp_all add: date_shape_def)
  ultimately show ?R by blast
next
  assume ?R
  then obtain d1 d2 rest where s: "s = interval_string d1 d2 @ rest"
    and d: "date_shape d1" "date_shape d2" by blast
  from d have l: "length d1 = 10" "length d2 = 10"
    and m: "match_here date_atoms d1" "match_here date_atoms d2"
    by (simp_all add: date_shape_def)
  have a: "match_here [Lit CHR '')''] (CHR '')'' # rest)" by simp
  have b: "match_here (date_atoms @ [Lit CHR '')'']) (d2 @ CHR '')'' # rest)"
    unfolding match_here_append [of date_atoms] length_date_atoms using l m a by blast
  have c: "match_here ([Lit CHR '',''] @ date_atoms @ [Lit CHR '')''])
             ('','' @ d2 @ CHR '')'' # rest)"
    unfolding match_here_append [of "[Lit CHR '','']"] using b by (intro exI [of _ "'',''"] exI [of _ "d2 @ CHR '')'' # rest"]) simp
  have e: "match_here (date_atoms @ [Lit CHR '',''] @ date_atoms @ [Lit CHR '')''])
             (d1 @ '','' @ d2 @ CHR '')'' # rest)"
    unfolding match_here_append [of date_atoms] length_date_atoms using l m c by blast
  have "match_here term_regex (''['' @ d1 @ '','' @ d2 @ CHR '')'' # rest)"
    unfolding term_regex_def match_here_append [of "[Lit CHR ''['']"]
    using e by (intro exI [of _ "''[''"] exI [of _ "d1 @ '','' @ d2 @ CHR '')'' # rest"]) simp
  then show ?L by (simp add: s interval_string_def)
qed


lemma regex_match_exact:
  assumes "date_shape d1" and "date_shape d2"
  shows "regex_match (interval_string d1 d2 @ post) = Some (d1, d2)"
proof -
  let ?cs = "d1 @ '','' @ d2 @ '')'' @ post"
  have s: "interval_string d1 d2 @ post = CHR ''['' # ?cs" by (simp add: interval_string_def)
  from assms have l: "length d1 = 10" "length d2 = 10" by (simp_all add: date_shape_def)
  from assms have "match_here term_regex (CHR ''['' # ?cs)"
    unfolding match_term_regex s [symmetric] by blast
  then have r: "regex_match (CHR ''['' # ?cs) = Some (take 10 ?cs, take 10 (drop 11 ?cs))" by simp
  from l have t1: "take 10 ?cs = d1" by simp
  from l have t2: "take 10 (drop 11 ?cs) = d2" by simp
  show ?thesis by (simp only: s r t1 t2)
qed


lemma regex_match_complete:
  assumes "date_shape d1" and "date_shape d2"
  shows "regex_match (pre @ interval_string d1 d2 @ post) \<noteq> None"
proof (induction pre)
  case Nil
  from regex_match_exact [OF assms, of post] show ?case by simp
next
  case (Cons x pre)
  then show ?case by simp
qed







section \<open>Facilities of parks that are not in the store\<close>

lemma add_missing_union: "add_missing k xs s = s \<union> k ` set xs"
  by (induction xs arbitrary: s) auto








section \<open>The filter effect after a handler\<close>

text \<open>
  The filter effect reads the three selected sets (\<^verbatim>\<open>selectedParks.has(p.id)\<close> and the like),
  so every write of a handler to one of them runs the effect again before the layers are
  redrawn. What a click on a control of the filter panel does to the component is the handler
  followed by the effect, and the auto-select loops of the effect add every listed id that is
  missing, not only the id of a new item.
\<close>

lemma effect_selects_listed:
  "district_id ` set (districts s) \<subseteq> selectedDistricts (filters_effect ftypes s st)
   \<and> park_id ` set (parks s) \<subseteq> selectedParks (filters_effect ftypes s st)"
  by (auto simp: filters_effect_def add_missing_union)

text \<open>
  Claim C1. Deselect-all-parks is to deselect the parks of the selected districts and to leave
  the others as they were. In the store with district 10, park 1 in it and park 2 without
  district, the handler alone empties the selection, but the effect that follows puts parks 1
  and 2 back: after the click both are selected again, and both are drawn. Checkboxes fare the
  same, so the sequence of the claim (park 1 off, district 10 off, deselect all parks, select
  all districts) ends with park 1 selected.
\<close>

theorem deselectAllParks_undone_by_effect:
  "selectedParks
     (deselectAllParks [\<lparr>park_id = 1, districtId = Some 10, geometry = Some ()\<rparr>,
                        \<lparr>park_id = 2, districtId = None, geometry = Some ()\<rparr>]
        \<lparr>selectedDistricts = {10}, selectedParks = {1, 2}, selectedFacilityTypes = {},
         filtersInitialized = True\<rparr>) = {}
   \<and> map_run [] [RunEffect, DeselectAllParks, RunEffect]
        (\<lparr>districts = [\<lparr>district_id = 10\<rparr>],
          parks = [\<lparr>park_id = 1, districtId = Some 10, geometry = Some ()\<rparr>,
                   \<lparr>park_id = 2, districtId = None, geometry = Some ()\<rparr>],
          facilities = []\<rparr>, initial_filters)
      = (\<lparr>districts = [\<lparr>district_id = 10\<rparr>],
          parks = [\<lparr>park_id = 1, districtId = Some 10, geometry = Some ()\<rparr>,
                   \<lparr>park_id = 2, districtId = None, geometry = Some ()\<rparr>],
          facilities = []\<rparr>,
         \<lparr>selectedDistricts = {10}, selectedParks = {1, 2}, selectedFacilityTypes = {},
          filtersInitialized = True\<rparr>)
   \<and> map_run [] [RunEffect, TogglePark 1, RunEffect, ToggleDistrict 10, RunEffect,
                  DeselectAllParks, RunEffect, SelectAllDistricts, RunEffect]
        (\<lparr>districts = [\<lparr>district_id = 10\<rparr>],
          parks = [\<lparr>park_id = 1, districtId = Some 10, geometry = Some ()\<rparr>,
                   \<lparr>park_id = 2, districtId = None, geometry = Some ()\<rparr>],
          facilities = []\<rparr>, initial_filters)
      = (\<lparr>districts = [\<lparr>district_id = 10\<rparr>],
          parks = [\<lparr>park_id = 1, districtId = Some 10, geometry = Some ()\<rparr>,
                   \<lparr>park_id = 2, districtId = None, geometry = Some ()\<rparr>],
          facilities = []\<rparr>,
         \<lparr>selectedDistricts = {10}, selectedParks = {1, 2}, selectedFacilityTypes = {},
          filtersInitialized = True\<rparr>)
   \<and> loadParks [\<lparr>park_id = 1, districtId = Some 10, geometry = Some ()\<rparr>,
                 \<lparr>park_id = 2, districtId = None, geometry = Some ()\<rparr>]
        \<lparr>selectedDistricts = {10}, selectedParks = {1, 2}, selectedFacilityTypes = {},
         filtersInitialized = True\<rparr>
      = [\<lparr>park_id = 1, districtId = Some 10, geometry = Some ()\<rparr>,
         \<lparr>park_id = 2, districtId = None, geometry = Some ()\<rparr>]"
proof -
  have "insert (2::int) {1} = {1, 2}" by auto
  then show ?thesis
    by (simp add: filters_effect_def initial_filters_def deselectAllParks_def
        selectAllDistricts_def togglePark_def toggleDistrict_def toggle_def
        loadParks_def park_layer_def truthy_def truthy_num_def has_def)
qed

text \<open>After the click on deselect-all-parks, park 1 is selected.\<close>

theorem deselectAllParks_undone_by_effect_witness:
  "1 \<in> selectedParks (snd (map_run [] [RunEffect, DeselectAllParks, RunEffect]
        (\<lparr>districts = [\<lparr>district_id = 10\<rparr>],
          parks = [\<lparr>park_id = 1, districtId = Some 10, geometry = Some ()\<rparr>,
                   \<lparr>park_id = 2, districtId = None, geometry = Some ()\<rparr>],
          facilities = []\<rparr>, initial_filters)))
   \<and> 10 \<in> selectedDistricts (snd (map_run [] [RunEffect, DeselectAllParks, RunEffect]
        (\<lparr>districts = [\<lparr>district_id = 10\<rparr>],
          parks = [\<lparr>park_id = 1, districtId = Some 10, geometry = Some ()\<rparr>,
                   \<lparr>park_id = 2, districtId = None, geometry = Some ()\<rparr>],
          facilities = []\<rparr>, initial_filters)))"
proof -
  note r = deselectAllParks_undone_by_effect [THEN conjunct2, THEN conjunct1]
  show ?thesis unfolding r by simp
qed

text \<open>
  Claim C8. Select-all-parks is to leave selected exactly the parks without district or with a
  selected district. When the district list is empty (its request failed) and the parks are
  loaded, no district is selected; the handler alone selects park 3 only, but the effect that
  follows adds park 1, whose district 10 is not selected.
\<close>

theorem selectAllParks_undone_by_effect:
  "selectedDistricts
     (filters_effect []
        \<lparr>districts = [],
         parks = [\<lparr>park_id = 1, districtId = Some 10, geometry = Some ()\<rparr>,
                  \<lparr>park_id = 3, districtId = None, geometry = Some ()\<rparr>],
         facilities = []\<rparr> initial_filters) = {}
   \<and> selectedParks
       (selectAllParks [\<lparr>park_id = 1, districtId = Some 10, geometry = Some ()\<rparr>,
                        \<lparr>park_id = 3, districtId = None, geometry = Some ()\<rparr>]
          \<lparr>selectedDistricts = {}, selectedParks = {1, 3}, selectedFacilityTypes = {},
           filtersInitialized = True\<rparr>) = {3}
   \<and> map_run [] [RunEffect, SelectAllParks, RunEffect]
        (\<lparr>districts = [],
          parks = [\<lparr>park_id = 1, districtId = Some 10, geometry = Some ()\<rparr>,
                   \<lparr>park_id = 3, districtId = None, geometry = Some ()\<rparr>],
          facilities = []\<rparr>, initial_filters)
      = (\<lparr>districts = [],
          parks = [\<lparr>park_id = 1, districtId = Some 10, geometry = Some ()\<rparr>,
                   \<lparr>park_id = 3, districtId = None, geometry = Some ()\<rparr>],
          facilities = []\<rparr>,
         \<lparr>selectedDistricts = {}, selectedParks = {1, 3}, selectedFacilityTypes = {},
          filtersInitialized = True\<rparr>)"
proof -
  have "insert (1::int) {3} = {1, 3}" by auto
  then show ?thesis
    by (simp add: filters_effect_def initial_filters_def selectAllParks_def
        truthy_def truthy_num_def has_def)
qed

text \<open>After the click, park 1 is selected although no district is.\<close>

theorem selectAllParks_undone_by_effect_witness:
  "1 \<in> selectedParks (snd (map_run [] [RunEffect, SelectAllParks, RunEffect]
        (\<lparr>districts = [],
          parks = [\<lparr>park_id = 1, districtId = Some 10, geometry = Some ()\<rparr>,
                   \<lparr>park_id = 3, districtId = None, geometry = Some ()\<rparr>],
          facilities = []\<rparr>, initial_filters)))
   \<and> 10 \<notin> selectedDistricts (snd (map_run [] [RunEffect, SelectAllParks, RunEffect]
        (\<lparr>districts = [],
          parks = [\<lparr>park_id = 1, districtId = Some 10, geometry = Some ()\<rparr>,
                   \<lparr>park_id = 3, districtId = None, geometry = Some ()\<rparr>],
          facilities = []\<rparr>, initial_filters)))"
proof -
  note r = selectAllParks_undone_by_effect [THEN conjunct2, THEN conjunct2]
  show ?thesis unfolding r by simp
qed

end
